theory Spec2Isabelle
  imports Main "HOL-Library.Word"
begin

section \<open>JavaScript strings\<close>

text \<open>
  A JavaScript string is a sequence of UTF-16 code units. The literals of the source are
  written with \<open>js\<close>, which turns an ASCII literal into its code units; characters of
  the source outside ASCII are given by their code units.
\<close>

type_synonym code_unit = "16 word"
type_synonym jsstring = "code_unit list"

definition js :: "string \<Rightarrow> jsstring" where
  "js s = map of_char s"

text \<open>
  \<open>String.prototype.trim\<close> removes the white space and line terminators of ECMAScript
  from both ends: TAB, LF, VT, FF, CR, SPACE, NBSP, U+1680, U+2000 to U+200A, U+2028,
  U+2029, U+202F, U+205F, U+3000 and U+FEFF.
\<close>

definition isWhiteSpace :: "code_unit \<Rightarrow> bool" where
  "isWhiteSpace c \<longleftrightarrow>
     c \<in> {0x9, 0xA, 0xB, 0xC, 0xD, 0x20, 0xA0, 0x1680, 0x2028, 0x2029, 0x202F, 0x205F,
          0x3000, 0xFEFF}
     \<or> (0x2000 \<le> c \<and> c \<le> 0x200A)"

definition trim :: "jsstring \<Rightarrow> jsstring" where
  "trim s = rev (dropWhile isWhiteSpace (rev (dropWhile isWhiteSpace s)))"

text \<open>
  \<open>String.prototype.toLowerCase\<close>, on the code units below U+0100: A to Z and the
  Latin-1 capitals U+00C0 to U+00DE (U+00D7, the multiplication sign, apart) move up by
  32. Code units from U+0100 on are left as they are; JavaScript lowercases some of them
  too, but never to one of the code units of \<open>.pdf\<close>, the only suffix the source
  compares a lowercased string with.
\<close>

definition toLowerUnit :: "code_unit \<Rightarrow> code_unit" where
  "toLowerUnit c =
     (if (0x41 \<le> c \<and> c \<le> 0x5A) \<or> (0xC0 \<le> c \<and> c \<le> 0xDE \<and> c \<noteq> 0xD7)
      then c + 0x20 else c)"

definition toLowerCase :: "jsstring \<Rightarrow> jsstring" where
  "toLowerCase s = map toLowerUnit s"

definition endsWith :: "jsstring \<Rightarrow> jsstring \<Rightarrow> bool" where
  "endsWith s suf \<longleftrightarrow> length suf \<le> length s \<and> drop (length s - length suf) s = suf"

text \<open>
  A template literal renders a number with \<open>Number::toString\<close>. For a non-negative
  integer below \<open>2^53\<close>, which a JavaScript number holds exactly, these are its
  decimal digits, and that is what \<open>digits\<close> gives. Above that range \<open>digits\<close> is
  not what JavaScript prints (from \<open>10^21\<close> on it prints an exponent form), so it is
  used for counts below \<open>2^53\<close> only.
\<close>

fun digits :: "nat \<Rightarrow> jsstring" where
  "digits n = (if n < 10 then [of_nat (48 + n)] else digits (n div 10) @ [of_nat (48 + n mod 10)])"

declare digits.simps [simp del]

text \<open>The number a string of decimal digits stands for.\<close>

definition decimal_value :: "jsstring \<Rightarrow> nat" where
  "decimal_value s = foldl (\<lambda>a c. 10 * a + (unat c - 48)) 0 s"

section \<open>Data model\<close>

text \<open>
  The document of the wire contract: \<open>{id, filename, page_count, chunk_count, upload_time}\<close>.
\<close>

record document =
  doc_id :: jsstring
  filename :: jsstring
  page_count :: nat
  chunk_count :: nat
  upload_time :: jsstring

text \<open>
  A message of the conversation (ChatInterface.jsx). The user's message object has no
  \<open>sources\<close> property, the assistant's always has one: \<open>None\<close> is the missing property.
\<close>

record message =
  msg_id :: nat
  content :: jsstring
  isUser :: bool
  sources :: "jsstring list option"

section \<open>The registry: App.jsx\<close>

text \<open>The three \<open>useState\<close> cells of \<open>App\<close>.\<close>

record app_state =
  documents :: "document list"
  selectedDocument :: "document option"
  showUpload :: bool

definition app_init :: app_state where
  "app_init = \<lparr>documents = [], selectedDocument = None, showUpload = False\<rparr>"

text \<open>
  \<^verbatim>\<open>
  const handleUploadSuccess = (document) => {
    setDocuments(prev => [document, ...prev]);
    setSelectedDocument(document);
    setShowUpload(false);
  };
  \<close>
\<close>

definition handleUploadSuccess :: "document \<Rightarrow> app_state \<Rightarrow> app_state" where
  "handleUploadSuccess d st =
     st\<lparr>documents := d # documents st, selectedDocument := Some d, showUpload := False\<rparr>"

text \<open>The entries of the sequence that bear a given id.\<close>

definition entries_with_id :: "jsstring \<Rightarrow> app_state \<Rightarrow> document list" where
  "entries_with_id k st = filter (\<lambda>d. doc_id d = k) (documents st)"

text \<open>
  \<^verbatim>\<open>
  const handleDeleteDocument = (docId) => {
    setDocuments(prev => prev.filter(d => d.id !== docId));
    if (selectedDocument?.id === docId) {
      setSelectedDocument(null);
    }
  };
  \<close>
  \<open>setDocuments\<close> is given an updater, which React applies to the state cell as it is
  when the handler runs. \<open>selectedDocument\<close> is not read from the state cell: it is the
  variable of the render in which this handler was created, the parameter \<open>seen\<close> here.
  A handler called by the render that is on screen has \<open>seen = selectedDocument st\<close>.
\<close>

definition handleDeleteDocument :: "document option \<Rightarrow> jsstring \<Rightarrow> app_state \<Rightarrow> app_state" where
  "handleDeleteDocument seen docId st =
     (let st1 = st\<lparr>documents := filter (\<lambda>d. doc_id d \<noteq> docId) (documents st)\<rparr>
      in if map_option doc_id seen = Some docId then st1\<lparr>selectedDocument := None\<rparr> else st1)"



section \<open>The transport adapter: services/api.js\<close>

text \<open>
  The file handed to the upload: the two properties the source reads, \<open>name\<close> and
  \<open>size\<close> (in bytes).
\<close>

record js_file =
  file_name :: jsstring
  file_size :: nat

datatype http_method = GET | POST | DELETE

text \<open>
  The body of a request: none, the form data holding the file, or the JSON text of
  \<open>{document_id, question}\<close>.
\<close>

datatype request_body = NoBody | FormData js_file | JsonBody jsstring jsstring

record request =
  req_method :: http_method
  req_url :: jsstring
  req_body :: request_body

text \<open>
  What \<open>fetch\<close> resolves to, typed by the wire contract. A response is \<open>Ok\<close>
  (\<open>response.ok\<close>) or \<open>NotOk\<close>; its argument is what \<open>response.json()\<close> gives:
  \<open>Inl m\<close> when the body is not JSON and the promise rejects with the parser's error
  of message \<open>m\<close>, and otherwise the parsed object: the operation's payload for a
  success, the \<open>detail\<close> property for a failure (\<open>None\<close> when the property is absent
  or null). \<open>fetch\<close> itself rejects when the network fails: \<open>Inl m\<close> of the type
  \<open>'a fetch\<close>.
\<close>

datatype 'a response =
    Ok "jsstring + 'a"
  | NotOk "jsstring + jsstring option"

type_synonym 'a fetch = "request \<Rightarrow> jsstring + 'a response"

definition API_BASE_URL :: jsstring where
  "API_BASE_URL = js ''http://localhost:8000''"

text \<open>
  \<open>error.detail || dflt\<close>: the default stands in for a missing or null property and
  for the empty string, the only string that is falsy.
\<close>

definition or_default :: "jsstring option \<Rightarrow> jsstring \<Rightarrow> jsstring" where
  "or_default detail dflt =
     (case detail of None \<Rightarrow> dflt | Some s \<Rightarrow> if s = [] then dflt else s)"

text \<open>
  The lines each of the four functions ends with:
  \<^verbatim>\<open>
    if (!response.ok) {
        const error = await response.json();
        throw new Error(error.detail || 'Upload failed');
    }
    return response.json();
  \<close>
  \<open>Inl m\<close> is the rejection with an error of message \<open>m\<close>.
\<close>

definition settle :: "jsstring \<Rightarrow> 'a response \<Rightarrow> jsstring + 'a" where
  "settle dflt response =
     (case response of
        NotOk body \<Rightarrow>
          (case body of
             Inl parse_error \<Rightarrow> Inl parse_error
           | Inr detail \<Rightarrow> Inl (or_default detail dflt))
      | Ok body \<Rightarrow> body)"

text \<open>
  Each function returns the requests it has sent, in order, and its result.
\<close>

definition call :: "'a fetch \<Rightarrow> request \<Rightarrow> jsstring \<Rightarrow> request list \<times> (jsstring + 'a)" where
  "call fetch req dflt =
     ([req], case fetch req of Inl network_error \<Rightarrow> Inl network_error
                             | Inr response \<Rightarrow> settle dflt response)"

text \<open>The payload of an upload is the \<open>document\<close> property of the body.\<close>

definition uploadDocument :: "document fetch \<Rightarrow> js_file \<Rightarrow> request list \<times> (jsstring + document)" where
  "uploadDocument fetch f =
     call fetch
       \<lparr>req_method = POST, req_url = API_BASE_URL @ js ''/upload'', req_body = FormData f\<rparr>
       (js ''Upload failed'')"

text \<open>
  The payload of a query: \<open>{answer, sources}\<close>; \<open>None\<close> is a \<open>sources\<close> property
  that is absent or null.
\<close>

record query_response =
  answer :: jsstring
  answer_sources :: "jsstring list option"

definition queryDocument ::
  "query_response fetch \<Rightarrow> jsstring \<Rightarrow> jsstring \<Rightarrow> request list \<times> (jsstring + query_response)" where
  "queryDocument fetch documentId question =
     call fetch
       \<lparr>req_method = POST, req_url = API_BASE_URL @ js ''/query'',
        req_body = JsonBody documentId question\<rparr>
       (js ''Query failed'')"

text \<open>
  The payload of the list is its \<open>documents\<close> property; \<open>None\<close> is one that is absent
  or null.
\<close>

definition listDocuments ::
  "document list option fetch \<Rightarrow> request list \<times> (jsstring + document list option)" where
  "listDocuments fetch =
     call fetch
       \<lparr>req_method = GET, req_url = API_BASE_URL @ js ''/documents'', req_body = NoBody\<rparr>
       (js ''Failed to fetch documents'')"

definition deleteDocument :: "unit fetch \<Rightarrow> jsstring \<Rightarrow> request list \<times> (jsstring + unit)" where
  "deleteDocument fetch documentId =
     call fetch
       \<lparr>req_method = DELETE, req_url = API_BASE_URL @ js ''/documents/'' @ documentId,
        req_body = NoBody\<rparr>
       (js ''Delete failed'')"

text \<open>The calls a component makes to the adapter.\<close>

datatype adapter_call =
    UploadCall js_file
  | QueryCall jsstring jsstring
  | ListCall
  | DeleteCall jsstring

section \<open>Handlers that await the adapter\<close>

text \<open>
  A handler that awaits the adapter is given in two parts: \<open>_begin\<close> runs up to the
  \<open>await\<close> and gives the calls made to the adapter (and the state left, where the part
  sets any); \<open>_end\<close> runs from the \<open>await\<close> on, given what the adapter's promise
  settled to, on the state as it is by then. An \<open>_end\<close> gives \<open>Inr\<close> the state it
  leaves, or \<open>Inl\<close> the message of an exception that leaves the handler.
\<close>

text \<open>
  The load of the list, of App.jsx:
  \<^verbatim>\<open>
  const loadDocuments = async () => {
    try {
      const response = await listDocuments();
      setDocuments(response.documents || []);
    } catch (error) {
      console.error('Failed to load documents:', error);
    }
  };
  \<close>
\<close>

definition loadDocuments_begin :: "adapter_call list" where
  "loadDocuments_begin = [ListCall]"

definition loadDocuments_end ::
  "jsstring + document list option \<Rightarrow> app_state \<Rightarrow> jsstring + app_state" where
  "loadDocuments_end result st =
     (case result of
        Inr response_documents \<Rightarrow>
          Inr (st\<lparr>documents := (case response_documents of None \<Rightarrow> [] | Some ds \<Rightarrow> ds)\<rparr>)
      | Inl error \<Rightarrow> Inr st)"

section \<open>The document list: DocumentList.jsx\<close>

text \<open>
  \<^verbatim>\<open>
  const handleDelete = async (e, doc) => {
      e.stopPropagation();
      if (!confirm(...)) { return; }
      try {
          await deleteDocument(doc.id);
          if (onDelete) { onDelete(doc.id); }
      } catch (error) {
          alert(...);
      }
  };
  \<close>
  \<open>confirmed\<close> is the answer to the dialog; \<open>onDelete\<close> is the property the list was
  rendered with (\<open>None\<close> when it was given none).
\<close>

definition handleDelete_begin :: "bool \<Rightarrow> document \<Rightarrow> adapter_call list" where
  "handleDelete_begin confirmed doc = (if \<not> confirmed then [] else [DeleteCall (doc_id doc)])"

definition handleDelete_end ::
  "(jsstring \<Rightarrow> app_state \<Rightarrow> app_state) option \<Rightarrow> document \<Rightarrow> jsstring + unit \<Rightarrow> app_state
     \<Rightarrow> jsstring + app_state" where
  "handleDelete_end onDelete doc result st =
     (case result of
        Inr _ \<Rightarrow> Inr (case onDelete of None \<Rightarrow> st | Some f \<Rightarrow> f (doc_id doc) st)
      | Inl error \<Rightarrow> Inr st)"



section \<open>The upload: FileUpload\<close>

text \<open>
  The four \<open>useState\<close> cells of the component, and the number of \<open>progressInterval\<close>
  timers that are set and not yet cleared.
\<close>

record upload_state =
  isDragging :: bool
  isUploading :: bool
  uploadProgress :: nat
  error :: "jsstring option"
  intervals :: nat

definition upload_init :: upload_state where
  "upload_init =
     \<lparr>isDragging = False, isUploading = False, uploadProgress = 0, error = None, intervals = 0\<rparr>"

text \<open>
  \<^verbatim>\<open>
  const handleFile = async (file) => {
      if (!file.name.toLowerCase().endsWith('.pdf')) {
          setError('Please upload a PDF file');
          return;
      }
      if (file.size > 50 * 1024 * 1024) {
          setError('File size must be less than 50MB');
          return;
      }
      setError(null);
      setIsUploading(true);
      setUploadProgress(0);
      const progressInterval = setInterval(() => {
          setUploadProgress(prev => Math.min(prev + 10, 90));
      }, 200);
      try {
          const result = await uploadDocument(file);
          clearInterval(progressInterval);
          setUploadProgress(100);
          setTimeout(() => {
              setIsUploading(false);
              setUploadProgress(0);
              if (onUploadSuccess) { onUploadSuccess(result.document); }
          }, 500);
      } catch (err) {
          clearInterval(progressInterval);
          setIsUploading(false);
          setUploadProgress(0);
          setError(err.message);
      }
  };
  \<close>
\<close>

definition handleFile_begin :: "js_file \<Rightarrow> upload_state \<Rightarrow> upload_state \<times> adapter_call list" where
  "handleFile_begin f st =
     (if \<not> endsWith (toLowerCase (file_name f)) (js ''.pdf'')
      then (st\<lparr>error := Some (js ''Please upload a PDF file'')\<rparr>, [])
      else if file_size f > 50 * 1024 * 1024
      then (st\<lparr>error := Some (js ''File size must be less than 50MB'')\<rparr>, [])
      else (st\<lparr>error := None, isUploading := True, uploadProgress := 0,
                intervals := Suc (intervals st)\<rparr>,
            [UploadCall f]))"



text \<open>
  The timeout set on success, 500 ms later: it ends the upload and hands the document to
  \<open>onUploadSuccess\<close>, which acts on the state of \<open>App\<close>.
\<close>

definition handleFile_timeout ::
  "(document \<Rightarrow> app_state \<Rightarrow> app_state) option \<Rightarrow> document \<Rightarrow> upload_state \<times> app_state
     \<Rightarrow> upload_state \<times> app_state" where
  "handleFile_timeout onUploadSuccess result_document w =
     (case w of (st, app) \<Rightarrow>
        (st\<lparr>isUploading := False, uploadProgress := 0\<rparr>,
         case onUploadSuccess of None \<Rightarrow> app | Some f \<Rightarrow> f result_document app))"










section \<open>The conversation: ChatInterface.jsx\<close>

record chat_state =
  messages :: "message list"
  inputValue :: jsstring
  isLoading :: bool

definition chat_init :: chat_state where
  "chat_init = \<lparr>messages = [], inputValue = [], isLoading = False\<rparr>"

text \<open>
  The message the effect seeds, with \<open>now\<close> for \<open>Date.now()\<close>. Its text is the
  template literal of the source: U+1F4C4 (the surrogates D83D DCC4), a space, the file
  name between \<open>**\<close>, \<open>is ready!\<close>, two line feeds, and the sentence with the two counts.
\<close>

definition ready_text :: "document \<Rightarrow> jsstring" where
  "ready_text d =
     [0xD83D, 0xDCC4] @ js '' **'' @ filename d @ js ''** is ready!'' @ [0xA, 0xA]
     @ js ''I'' @ [0x27] @ js ''ve processed '' @ digits (page_count d) @ js '' pages into ''
     @ digits (chunk_count d)
     @ js '' searchable chunks. Ask me anything about this document!''"

definition ready_message :: "nat \<Rightarrow> document \<Rightarrow> message" where
  "ready_message now d =
     \<lparr>msg_id = now, content = ready_text d, isUser = False, sources = Some []\<rparr>"

text \<open>
  \<^verbatim>\<open>
  useEffect(() => {
      if (selectedDocument) {
          setMessages([{ id: Date.now(), content: ..., isUser: false, sources: [] }]);
      } else {
          setMessages([]);
      }
  }, [selectedDocument]);
  \<close>
  React runs the effect after the first render and after each render in which the
  \<open>selectedDocument\<close> property differs from that of the render before.
\<close>

definition selection_effect :: "nat \<Rightarrow> document option \<Rightarrow> chat_state \<Rightarrow> chat_state" where
  "selection_effect now selected st =
     (case selected of
        Some d \<Rightarrow> st\<lparr>messages := [ready_message now d]\<rparr>
      | None \<Rightarrow> st\<lparr>messages := []\<rparr>)"

text \<open>
  \<^verbatim>\<open>
  const handleSubmit = async (e) => {
      e.preventDefault();
      if (!inputValue.trim() || !selectedDocument || isLoading) return;
      const question = inputValue.trim();
      setInputValue('');
      const userMessage = { id: Date.now(), content: question, isUser: true };
      setMessages(prev => [...prev, userMessage]);
      setIsLoading(true);
      try {
          const response = await queryDocument(selectedDocument.id, question);
          const aiMessage = { id: Date.now() + 1, content: response.answer,
                              isUser: false, sources: response.sources || [] };
          setMessages(prev => [...prev, aiMessage]);
      } catch (error) {
          const errorMessage = { id: Date.now() + 1, content: ... error.message ...,
                                 isUser: false, sources: [] };
          setMessages(prev => [...prev, errorMessage]);
      } finally {
          setIsLoading(false);
      }
  };
  \<close>
  \<open>selected\<close> is the \<open>selectedDocument\<close> property of the component. The state that
  \<open>handleSubmit_begin\<close> gives is the one the state setters have been called for when
  \<open>queryDocument\<close> is called.
\<close>

definition userMessage :: "nat \<Rightarrow> jsstring \<Rightarrow> message" where
  "userMessage now question =
     \<lparr>msg_id = now, content = question, isUser = True, sources = None\<rparr>"

definition handleSubmit_begin ::
  "nat \<Rightarrow> document option \<Rightarrow> chat_state \<Rightarrow> chat_state \<times> adapter_call list" where
  "handleSubmit_begin now selected st =
     (if trim (inputValue st) = [] \<or> selected = None \<or> isLoading st then (st, [])
      else
        (let question = trim (inputValue st)
         in (st\<lparr>inputValue := [], messages := messages st @ [userMessage now question],
                isLoading := True\<rparr>,
             case selected of
               Some d \<Rightarrow> [QueryCall (doc_id d) question]
             | None \<Rightarrow> [])))"

text \<open>The prefix of the text of an error message: U+274C, then \<open>Error:\<close> between spaces.\<close>

definition error_marker :: jsstring where
  "error_marker = [0x274C] @ js '' Error: ''"

definition aiMessage :: "nat \<Rightarrow> query_response \<Rightarrow> message" where
  "aiMessage now response =
     \<lparr>msg_id = now + 1, content = answer response, isUser = False,
      sources = Some (case answer_sources response of None \<Rightarrow> [] | Some srcs \<Rightarrow> srcs)\<rparr>"

definition errorMessage :: "nat \<Rightarrow> jsstring \<Rightarrow> message" where
  "errorMessage now error_message =
     \<lparr>msg_id = now + 1, content = error_marker @ error_message, isUser = False,
      sources = Some []\<rparr>"

definition handleSubmit_end ::
  "nat \<Rightarrow> jsstring + query_response \<Rightarrow> chat_state \<Rightarrow> jsstring + chat_state" where
  "handleSubmit_end now result st =
     (case result of
        Inr response \<Rightarrow>
          Inr (st\<lparr>messages := messages st @ [aiMessage now response], isLoading := False\<rparr>)
      | Inl error_message \<Rightarrow>
          Inr (st\<lparr>messages := messages st @ [errorMessage now error_message],
                  isLoading := False\<rparr>))"

section \<open>Facts about strings\<close>

lemma all_dropWhile: "(\<forall>c \<in> set (dropWhile P s). P c) = (\<forall>c \<in> set s. P c)"
  by (induction s) auto

text \<open>A string trims to the empty string exactly when it is empty or all white space.\<close>

lemma trim_Nil_iff: "trim s = [] \<longleftrightarrow> (\<forall>c \<in> set s. isWhiteSpace c)"
  by (simp add: trim_def all_dropWhile)

lemma toLowerUnit_dot: "toLowerUnit c = 0x2E \<longleftrightarrow> c = 0x2E"
  by (auto simp: toLowerUnit_def)

lemma toLowerUnit_p: "toLowerUnit c = 0x70 \<longleftrightarrow> c = 0x50 \<or> c = 0x70"
  by (auto simp: toLowerUnit_def)

lemma toLowerUnit_d: "toLowerUnit c = 0x64 \<longleftrightarrow> c = 0x44 \<or> c = 0x64"
  by (auto simp: toLowerUnit_def)

lemma toLowerUnit_f: "toLowerUnit c = 0x66 \<longleftrightarrow> c = 0x46 \<or> c = 0x66"
  by (auto simp: toLowerUnit_def)

lemma endsWith_append: "endsWith s suf \<longleftrightarrow> (\<exists>pre. s = pre @ suf)"
proof
  assume "endsWith s suf"
  then have "s = take (length s - length suf) s @ suf"
    by (metis append_take_drop_id endsWith_def)
  then show "\<exists>pre. s = pre @ suf" ..
next
  assume "\<exists>pre. s = pre @ suf"
  then show "endsWith s suf" by (auto simp: endsWith_def)
qed

text \<open>
  The test of the upload reads the extension in either case: a name passes exactly when
  its last four code units are a full stop, \<open>p\<close> or \<open>P\<close>, \<open>d\<close> or \<open>D\<close>, and \<open>f\<close>
  or \<open>F\<close>.
\<close>

lemma endsWith_pdf_iff:
  "endsWith (toLowerCase n) (js ''.pdf'') \<longleftrightarrow>
     (\<exists>pre p d f. n = pre @ [0x2E, p, d, f]
        \<and> (p = 0x50 \<or> p = 0x70) \<and> (d = 0x44 \<or> d = 0x64) \<and> (f = 0x46 \<or> f = 0x66))"
proof -
  have "endsWith (toLowerCase n) (js ''.pdf'')
          \<longleftrightarrow> (\<exists>pre. map toLowerUnit n = pre @ [0x2E, 0x70, 0x64, 0x66])"
    by (simp add: endsWith_append toLowerCase_def js_def)
  also have "\<dots> \<longleftrightarrow> (\<exists>pre a p d f. n = pre @ [a, p, d, f]
        \<and> toLowerUnit a = 0x2E \<and> toLowerUnit p = 0x70 \<and> toLowerUnit d = 0x64
        \<and> toLowerUnit f = 0x66)"
  proof
    assume "\<exists>pre. map toLowerUnit n = pre @ [0x2E, 0x70, 0x64, 0x66]"
    then show "\<exists>pre a p d f. n = pre @ [a, p, d, f]
        \<and> toLowerUnit a = 0x2E \<and> toLowerUnit p = 0x70 \<and> toLowerUnit d = 0x64
        \<and> toLowerUnit f = 0x66"
      by (auto simp: map_eq_append_conv map_eq_Cons_conv)
  next
    assume "\<exists>pre a p d f. n = pre @ [a, p, d, f]
        \<and> toLowerUnit a = 0x2E \<and> toLowerUnit p = 0x70 \<and> toLowerUnit d = 0x64
        \<and> toLowerUnit f = 0x66"
    then obtain pre a p d f where "n = pre @ [a, p, d, f]" "toLowerUnit a = 0x2E"
      "toLowerUnit p = 0x70" "toLowerUnit d = 0x64" "toLowerUnit f = 0x66"
      by blast
    then have "map toLowerUnit n = map toLowerUnit pre @ [0x2E, 0x70, 0x64, 0x66]"
      by simp
    then show "\<exists>pre. map toLowerUnit n = pre @ [0x2E, 0x70, 0x64, 0x66]" ..
  qed
  also have "\<dots> \<longleftrightarrow> (\<exists>pre p d f. n = pre @ [0x2E, p, d, f]
        \<and> (p = 0x50 \<or> p = 0x70) \<and> (d = 0x44 \<or> d = 0x64) \<and> (f = 0x46 \<or> f = 0x66))"
    by (simp add: toLowerUnit_dot toLowerUnit_p toLowerUnit_d toLowerUnit_f)
  finally show ?thesis .
qed

lemma unat_digit: "d < 10 \<Longrightarrow> unat (48 + of_nat d :: code_unit) - 48 = d"
  by (simp add: unat_word_ariths unat_of_nat)

text \<open>\<open>digits\<close> writes a number in decimal: reading the digits back gives the number.\<close>

lemma decimal_value_digits: "decimal_value (digits n) = n"
proof (induction n rule: digits.induct)
  case (1 n)
  show ?case
  proof (cases "n < 10")
    case True
    then show ?thesis
      by (subst digits.simps) (simp add: decimal_value_def unat_digit)
  next
    case False
    have "n mod 10 < 10" by simp
    then have d: "unat (48 + of_nat (n mod 10) :: code_unit) - 48 = n mod 10"
      by (rule unat_digit)
    from False have "decimal_value (digits (n div 10)) = n div 10"
      using "1.IH" by simp
    with False d show ?thesis
      by (subst digits.simps) (simp add: decimal_value_def)
  qed
qed

section \<open>Adding a document at the front\<close>

text \<open>
  C1, as the source has it. \<open>handleUploadSuccess\<close> puts the document at the head of
  the sequence and keeps every earlier entry, those of the same id too: the entries that
  bear the id of the new document are the new document followed by the ones that bore it
  before. So exactly one entry bears the id afterwards if and only if none bore it
  before, and a second document of the same id and another file name stands in front of
  the first, which stays.
\<close>

theorem addFront_keeps_earlier_entries:
  "documents (handleUploadSuccess d st) = d # documents st
   \<and> entries_with_id (doc_id d) (handleUploadSuccess d st) = d # entries_with_id (doc_id d) st
   \<and> (entries_with_id (doc_id d) (handleUploadSuccess d st) = [d])
       = (entries_with_id (doc_id d) st = [])
   \<and> entries_with_id (doc_id d)
         (handleUploadSuccess (d\<lparr>filename := name2\<rparr>) (handleUploadSuccess d st))
       = d\<lparr>filename := name2\<rparr> # d # entries_with_id (doc_id d) st"
  by (simp add: entries_with_id_def handleUploadSuccess_def)

text \<open>
  C1 as stated fails: after two uploads of the id \<open>d1\<close>, first with the file name
  \<open>a.pdf\<close> and then with \<open>b.pdf\<close>, two entries bear the id, not one.
\<close>

theorem addFront_twice_duplicates:
  "map filename
     (entries_with_id (js ''d1'')
        (handleUploadSuccess
           \<lparr>doc_id = js ''d1'', filename = js ''b.pdf'', page_count = 5, chunk_count = 12,
            upload_time = js ''2024-01-01T00:00:00Z''\<rparr>
           (handleUploadSuccess
              \<lparr>doc_id = js ''d1'', filename = js ''a.pdf'', page_count = 5, chunk_count = 12,
               upload_time = js ''2024-01-01T00:00:00Z''\<rparr>
              app_init)))
   = [js ''b.pdf'', js ''a.pdf'']"
  by (simp add: entries_with_id_def handleUploadSuccess_def app_init_def)

section \<open>Submitting a question\<close>

text \<open>
  C2. When the input is empty or all white space, or no document is selected, or a query
  is in flight, \<open>handleSubmit\<close> leaves the state as it is and calls nothing. Otherwise
  it appends one user message, of the trimmed input, sets \<open>isLoading\<close>, and then makes
  the one call to \<open>queryDocument\<close>.
\<close>

theorem handleSubmit_guard:
  "((\<forall>c \<in> set (inputValue st). isWhiteSpace c) \<or> selected = None \<or> isLoading st
      \<longrightarrow> handleSubmit_begin now selected st = (st, []))
   \<and> (\<not> (\<forall>c \<in> set (inputValue st). isWhiteSpace c) \<and> \<not> isLoading st
      \<longrightarrow> handleSubmit_begin now (Some d) st =
            (st\<lparr>inputValue := [],
                messages := messages st @ [userMessage now (trim (inputValue st))],
                isLoading := True\<rparr>,
             [QueryCall (doc_id d) (trim (inputValue st))]))"
  by (simp add: handleSubmit_begin_def trim_Nil_iff [symmetric] Let_def)

theorem handleSubmit_guard_witness:
  "handleSubmit_begin 7
     (Some \<lparr>doc_id = js ''d1'', filename = js ''report.pdf'', page_count = 5,
            chunk_count = 12, upload_time = js ''2024-01-01T00:00:00Z''\<rparr>)
     \<lparr>messages = [], inputValue = js '' hi '', isLoading = False\<rparr>
   = (\<lparr>messages = [\<lparr>msg_id = 7, content = js ''hi'', isUser = True, sources = None\<rparr>],
       inputValue = [], isLoading = True\<rparr>,
      [QueryCall (js ''d1'') (js ''hi'')])
   \<and> handleSubmit_begin 7
     (Some \<lparr>doc_id = js ''d1'', filename = js ''report.pdf'', page_count = 5,
            chunk_count = 12, upload_time = js ''2024-01-01T00:00:00Z''\<rparr>)
     \<lparr>messages = [], inputValue = js ''  '', isLoading = False\<rparr>
   = (\<lparr>messages = [], inputValue = js ''  '', isLoading = False\<rparr>, [])"
  using
    handleSubmit_guard [of "\<lparr>messages = [], inputValue = js '' hi '', isLoading = False\<rparr>"
      "Some \<lparr>doc_id = js ''d1'', filename = js ''report.pdf'', page_count = 5,
            chunk_count = 12, upload_time = js ''2024-01-01T00:00:00Z''\<rparr>" 7
      "\<lparr>doc_id = js ''d1'', filename = js ''report.pdf'', page_count = 5,
            chunk_count = 12, upload_time = js ''2024-01-01T00:00:00Z''\<rparr>"]
    handleSubmit_guard [of "\<lparr>messages = [], inputValue = js ''  '', isLoading = False\<rparr>"
      "Some \<lparr>doc_id = js ''d1'', filename = js ''report.pdf'', page_count = 5,
            chunk_count = 12, upload_time = js ''2024-01-01T00:00:00Z''\<rparr>" 7]
  by (simp add: js_def isWhiteSpace_def trim_def userMessage_def)

section \<open>Validating the file\<close>

text \<open>
  C3. A file whose name does not end in \<open>.pdf\<close>, in either case, or whose size is above
  50 MiB only has the error set, to the message of the failed check, and nothing is
  called: the component is not uploading unless it was before, and while it is the
  control takes no file. A file that passes both checks clears the error, starts the
  upload with the progress at 0, and is handed to \<open>uploadDocument\<close>.
\<close>

theorem handleFile_validation:
  "(\<not> endsWith (toLowerCase (file_name f)) (js ''.pdf'')
      \<longrightarrow> handleFile_begin f st = (st\<lparr>error := Some (js ''Please upload a PDF file'')\<rparr>, []))
   \<and> (endsWith (toLowerCase (file_name f)) (js ''.pdf'') \<and> file_size f > 50 * 1024 * 1024
      \<longrightarrow> handleFile_begin f st =
            (st\<lparr>error := Some (js ''File size must be less than 50MB'')\<rparr>, []))
   \<and> (endsWith (toLowerCase (file_name f)) (js ''.pdf'') \<and> file_size f \<le> 50 * 1024 * 1024
      \<longrightarrow> handleFile_begin f st =
            (st\<lparr>error := None, isUploading := True, uploadProgress := 0,
                intervals := Suc (intervals st)\<rparr>,
             [UploadCall f]))"
  by (simp add: handleFile_begin_def)

theorem handleFile_validation_witness:
  "handleFile_begin \<lparr>file_name = js ''notes.txt'', file_size = 10\<rparr> upload_init
     = (upload_init\<lparr>error := Some (js ''Please upload a PDF file'')\<rparr>, [])
   \<and> handleFile_begin \<lparr>file_name = js ''big.pdf'', file_size = 52428801\<rparr> upload_init
     = (upload_init\<lparr>error := Some (js ''File size must be less than 50MB'')\<rparr>, [])
   \<and> handleFile_begin \<lparr>file_name = js ''Report.PDF'', file_size = 52428800\<rparr> upload_init
     = (\<lparr>isDragging = False, isUploading = True, uploadProgress = 0, error = None,
         intervals = 1\<rparr>,
        [UploadCall \<lparr>file_name = js ''Report.PDF'', file_size = 52428800\<rparr>])"
  using
    handleFile_validation [of "\<lparr>file_name = js ''notes.txt'', file_size = 10\<rparr>" upload_init]
    handleFile_validation [of "\<lparr>file_name = js ''big.pdf'', file_size = 52428801\<rparr>" upload_init]
    handleFile_validation [of "\<lparr>file_name = js ''Report.PDF'', file_size = 52428800\<rparr>" upload_init]
  by (simp add: js_def endsWith_def toLowerCase_def toLowerUnit_def upload_init_def)

section \<open>Removing a document\<close>












text \<open>
  The delete of the list, once acknowledged, runs the \<open>onDelete\<close> it was rendered with.
\<close>

lemma handleDelete_end_acknowledged:
  "handleDelete_end (Some (handleDeleteDocument seen)) doc (Inr ()) st
     = Inr (handleDeleteDocument seen (doc_id doc) st)"
  by (simp add: handleDelete_end_def)




text \<open>
  A handler created by an earlier render sees the selection of that render. When the
  document is selected after its delete was confirmed and before the delete is
  acknowledged, the handler that runs has seen no selection: the entry goes and the
  selection stays on the removed document.
\<close>

lemma stale_handler_keeps_selection:
  "handleDelete_end (Some (handleDeleteDocument None)) d (Inr ())
     \<lparr>documents = [d], selectedDocument = Some d, showUpload = False\<rparr>
   = Inr \<lparr>documents = [], selectedDocument = Some d, showUpload = False\<rparr>"
  by (simp add: handleDelete_end_def handleDeleteDocument_def)

section \<open>A query that fails\<close>

text \<open>
  C5. When the adapter's call fails with the message \<open>m\<close>, \<open>handleSubmit\<close> ends
  without an exception, in the state \<open>st'\<close>: one message more than before, the last one
  the assistant's, its text the error marker followed by \<open>m\<close> and its sources the empty
  list, and \<open>isLoading\<close> off. The next question, \<open>q\<close>, is then sent unless it trims
  to nothing.
\<close>

theorem query_failure_is_a_turn:
  fixes st :: chat_state and now :: nat and m :: jsstring
  defines "st' \<equiv> st\<lparr>messages := messages st @
       [\<lparr>msg_id = now + 1, content = error_marker @ m, isUser = False, sources = Some []\<rparr>],
     isLoading := False\<rparr>"
  shows
  "handleSubmit_end now (Inl m) st = Inr st'
   \<and> length (messages st') = Suc (length (messages st))
   \<and> last (messages st') =
       \<lparr>msg_id = now + 1, content = error_marker @ m, isUser = False, sources = Some []\<rparr>
   \<and> error_marker = [0x274C] @ js '' Error: ''
   \<and> \<not> isLoading st'
   \<and> snd (handleSubmit_begin now' (Some d) (st'\<lparr>inputValue := q\<rparr>)) =
       (if trim q = [] then [] else [QueryCall (doc_id d) (trim q)])"
  by (simp add: st'_def handleSubmit_end_def errorMessage_def error_marker_def
      handleSubmit_begin_def Let_def)

section \<open>A change of the selected document\<close>

text \<open>The message seeded for the document of the scenario: 5 pages, 12 chunks.\<close>

lemma ready_text_example:
  "ready_text \<lparr>doc_id = js ''d1'', filename = js ''report.pdf'', page_count = 5,
                chunk_count = 12, upload_time = js ''2024-01-01T00:00:00Z''\<rparr>
   = [0xD83D, 0xDCC4] @ js '' **report.pdf** is ready!'' @ [0xA, 0xA] @ js ''I'' @ [0x27]
     @ js ''ve processed 5 pages into 12 searchable chunks. Ask me anything about this document!''"
  by (simp add: ready_text_def js_def digits.simps)

text \<open>
  The scenario as a whole: the upload of \<open>report.pdf\<close> is answered with the document
  \<open>d1\<close>; after the timeout the registry holds that one document and has it selected,
  and the effect seeds the one message.
\<close>

lemma upload_scenario:
  "handleFile_timeout (Some handleUploadSuccess)
     \<lparr>doc_id = js ''d1'', filename = js ''report.pdf'', page_count = 5, chunk_count = 12,
      upload_time = js ''2024-01-01T00:00:00Z''\<rparr>
     (\<lparr>isDragging = False, isUploading = True, uploadProgress = 100, error = None,
       intervals = 0\<rparr>, app_init)
   = (upload_init,
      \<lparr>documents =
         [\<lparr>doc_id = js ''d1'', filename = js ''report.pdf'', page_count = 5, chunk_count = 12,
           upload_time = js ''2024-01-01T00:00:00Z''\<rparr>],
       selectedDocument =
         Some \<lparr>doc_id = js ''d1'', filename = js ''report.pdf'', page_count = 5,
               chunk_count = 12, upload_time = js ''2024-01-01T00:00:00Z''\<rparr>,
       showUpload = False\<rparr>)
   \<and> messages
       (selection_effect now
          (Some \<lparr>doc_id = js ''d1'', filename = js ''report.pdf'', page_count = 5,
                 chunk_count = 12, upload_time = js ''2024-01-01T00:00:00Z''\<rparr>)
          chat_init)
     = [\<lparr>msg_id = now,
         content =
           ready_text \<lparr>doc_id = js ''d1'', filename = js ''report.pdf'', page_count = 5,
                        chunk_count = 12, upload_time = js ''2024-01-01T00:00:00Z''\<rparr>,
         isUser = False, sources = Some []\<rparr>]"
  by (simp add: handleFile_timeout_def handleUploadSuccess_def app_init_def upload_init_def
      selection_effect_def ready_message_def chat_init_def)

text \<open>
  C6. The effect that runs on a change of the selected document replaces the messages:
  when a document is selected, its counts below \<open>2^53\<close>, by the one message of the
  assistant, with no sources, whose text gives the page count and the chunk count of the
  document in decimal; by none when the selection is null.
\<close>

theorem selection_change_resets_turns:
  "(page_count d < 2 ^ 53 \<and> chunk_count d < 2 ^ 53 \<longrightarrow>
      selection_effect now (Some d) st =
        st\<lparr>messages :=
             [\<lparr>msg_id = now, content = ready_text d, isUser = False, sources = Some []\<rparr>]\<rparr>
      \<and> ready_text d =
          [0xD83D, 0xDCC4] @ js '' **'' @ filename d @ js ''** is ready!'' @ [0xA, 0xA]
          @ js ''I'' @ [0x27] @ js ''ve processed '' @ digits (page_count d)
          @ js '' pages into '' @ digits (chunk_count d)
          @ js '' searchable chunks. Ask me anything about this document!''
      \<and> decimal_value (digits (page_count d)) = page_count d
      \<and> decimal_value (digits (chunk_count d)) = chunk_count d)
   \<and> selection_effect now None st = st\<lparr>messages := []\<rparr>"
  by (simp add: selection_effect_def ready_message_def ready_text_def decimal_value_digits)

theorem selection_change_resets_turns_witness:
  "page_count \<lparr>doc_id = js ''d1'', filename = js ''report.pdf'', page_count = 5,
                 chunk_count = 12, upload_time = js ''2024-01-01T00:00:00Z''\<rparr> < 2 ^ 53
   \<and> chunk_count \<lparr>doc_id = js ''d1'', filename = js ''report.pdf'', page_count = 5,
                 chunk_count = 12, upload_time = js ''2024-01-01T00:00:00Z''\<rparr> < 2 ^ 53
   \<and> messages (selection_effect 7
        (Some \<lparr>doc_id = js ''d1'', filename = js ''report.pdf'', page_count = 5,
               chunk_count = 12, upload_time = js ''2024-01-01T00:00:00Z''\<rparr>)
        chat_init)
     = [\<lparr>msg_id = 7,
         content = [0xD83D, 0xDCC4] @ js '' **report.pdf** is ready!'' @ [0xA, 0xA] @ js ''I''
           @ [0x27]
           @ js ''ve processed 5 pages into 12 searchable chunks. Ask me anything about this document!'',
         isUser = False, sources = Some []\<rparr>]"
  using selection_change_resets_turns
    [where d = "\<lparr>doc_id = js ''d1'', filename = js ''report.pdf'', page_count = 5,
                 chunk_count = 12, upload_time = js ''2024-01-01T00:00:00Z''\<rparr>"
       and now = 7 and st = chat_init]
  by (simp add: js_def digits.simps chat_init_def)

section \<open>The progress of an upload\<close>








section \<open>The errors of the adapter\<close>

lemma call_requests: "fst (call fetch req dflt) = [req]"
  by (simp add: call_def)

lemma call_not_ok_detail:
  "fetch req = Inr (NotOk (Inr detail)) \<Longrightarrow>
   snd (call fetch req dflt) = Inl (or_default detail dflt)"
  by (simp add: call_def settle_def)

lemma call_not_ok_unparsed:
  "fetch req = Inr (NotOk (Inl m)) \<Longrightarrow> snd (call fetch req dflt) = Inl m"
  by (simp add: call_def settle_def)

lemma or_default_simps:
  "or_default None dflt = dflt"
  "or_default (Some []) dflt = dflt"
  "s \<noteq> [] \<Longrightarrow> or_default (Some s) dflt = s"
  by (simp_all add: or_default_def)

text \<open>Each of the four functions sends one request, whatever comes back.\<close>

lemma adapter_one_request:
  "length (fst (uploadDocument fetch1 f)) = 1
   \<and> length (fst (queryDocument fetch2 k q)) = 1
   \<and> length (fst (listDocuments fetch3)) = 1
   \<and> length (fst (deleteDocument fetch4 k)) = 1"
  by (simp add: uploadDocument_def queryDocument_def listDocuments_def deleteDocument_def
      call_requests)

text \<open>
  A failure whose body is JSON raises its \<open>detail\<close>, or the default of the function when
  the detail is missing, null or empty.
\<close>

lemma adapter_error_message:
  "snd (uploadDocument (\<lambda>_. Inr (NotOk (Inr detail))) f)
     = Inl (or_default detail (js ''Upload failed''))
   \<and> snd (queryDocument (\<lambda>_. Inr (NotOk (Inr detail))) k q)
     = Inl (or_default detail (js ''Query failed''))
   \<and> snd (listDocuments (\<lambda>_. Inr (NotOk (Inr detail))))
     = Inl (or_default detail (js ''Failed to fetch documents''))
   \<and> snd (deleteDocument (\<lambda>_. Inr (NotOk (Inr detail))) k)
     = Inl (or_default detail (js ''Delete failed''))"
  by (simp add: uploadDocument_def queryDocument_def listDocuments_def deleteDocument_def
      call_not_ok_detail)

text \<open>
  C8, at a failure whose body is not JSON (a plain text page of a status 500, say). The
  server has given no structured message, and the upload still does not raise its
  default: \<open>response.json()\<close> rejects inside the branch of the failure, and the error
  that leaves \<open>uploadDocument\<close> is the parser's.
\<close>

theorem error_body_not_json:
  "snd (uploadDocument
          (\<lambda>_. Inr (NotOk (Inl (js ''Unexpected token I in JSON at position 0''))))
          \<lparr>file_name = js ''report.pdf'', file_size = 10485760\<rparr>)
     = Inl (js ''Unexpected token I in JSON at position 0'')
   \<and> snd (uploadDocument
          (\<lambda>_. Inr (NotOk (Inl (js ''Unexpected token I in JSON at position 0''))))
          \<lparr>file_name = js ''report.pdf'', file_size = 10485760\<rparr>)
     \<noteq> Inl (js ''Upload failed'')"
  by (simp add: uploadDocument_def call_def settle_def js_def)

section \<open>Failures of the list and of the delete\<close>

text \<open>
  C9. When the call for the list fails the state of the registry, sequence and selection,
  is left as it is; when the call of a delete fails it is left as it is too, so no
  document is removed (and a delete that is not confirmed calls nothing); when the call
  for the list succeeds with a list, the sequence becomes that list.
\<close>

theorem failures_leave_registry:
  "loadDocuments_end (Inl e) st = Inr st
   \<and> handleDelete_end onDelete doc (Inl e) st = Inr st
   \<and> handleDelete_begin False doc = []
   \<and> loadDocuments_end (Inr (Some ds)) st = Inr (st\<lparr>documents := ds\<rparr>)"
  by (simp add: loadDocuments_end_def handleDelete_end_def handleDelete_begin_def)

section \<open>Missing fields of a response\<close>

text \<open>
  C10. An answer whose \<open>sources\<close> are absent or null is appended with the empty list
  as its sources, not with a missing property; a list response whose \<open>documents\<close> are
  absent or null makes the sequence empty.
\<close>

theorem absent_fields_are_empty:
  "handleSubmit_end now (Inr \<lparr>answer = a, answer_sources = None\<rparr>) st =
     Inr (st\<lparr>messages := messages st @
                [\<lparr>msg_id = now + 1, content = a, isUser = False, sources = Some []\<rparr>],
             isLoading := False\<rparr>)
   \<and> loadDocuments_end (Inr None) app = Inr (app\<lparr>documents := []\<rparr>)"
  by (simp add: handleSubmit_end_def aiMessage_def loadDocuments_end_def)

end
